theory Spec2Isabelle
  imports Main
begin

section \<open>Strings as the code uses them\<close>


definition is_space :: "char \<Rightarrow> bool" where
  \<comment> \<open>the class \<^verbatim>\<open>\s\<close>, restricted to the characters a \<^typ>\<open>char\<close> can hold:
      tab, line feed, vertical tab, form feed, carriage return, space, no-break space\<close>
  "is_space c = (c \<in> {CHR 0x09, CHR 0x0A, CHR 0x0B, CHR 0x0C, CHR 0x0D, CHR 0x20, CHR 0xA0})"

definition is_word :: "char \<Rightarrow> bool" where
  \<comment> \<open>the class \<^verbatim>\<open>\w\<close>\<close>
  "is_word c = (c \<in> set ''abcdefghijklmnopqrstuvwxyzABCDEFGHIJKLMNOPQRSTUVWXYZ0123456789_'')"

primrec startsWith :: "string \<Rightarrow> string \<Rightarrow> bool" where
  "startsWith s [] = True"
| "startsWith s (p # ps) = (case s of [] \<Rightarrow> False | c # cs \<Rightarrow> c = p \<and> startsWith cs ps)"

primrec str_includes :: "string \<Rightarrow> string \<Rightarrow> bool" where
  \<comment> \<open>\<^verbatim>\<open>s.includes(p)\<close>\<close>
  "str_includes [] p = (p = [])"
| "str_includes (c # cs) p = (startsWith (c # cs) p \<or> str_includes cs p)"

definition digit_char :: "nat \<Rightarrow> char" where
  "digit_char d = ''0123456789'' ! (d mod 10)"

function show_nat :: "nat \<Rightarrow> string" where
  \<comment> \<open>a non-negative integer inside a template literal: its decimal digits\<close>
  "show_nat n = (if n < 10 then [digit_char n] else show_nat (n div 10) @ [digit_char (n mod 10)])"
  by pat_completeness auto
termination
  by (relation "measure id") auto

declare show_nat.simps [simp del]




section \<open>The shared types (types.ts)\<close>

record GroundingSource =
  uri :: string
  title :: string

section \<open>Values and exceptions of the host language\<close>

datatype json =
    JNull
  | JBool bool
  | JNumber int
  | JString string
  | JArray "json list"
  | JObject "(string \<times> json) list"

text \<open>
  A \<^typ>\<open>json\<close> is what \<^verbatim>\<open>JSON.parse\<close> returns; an object lists its own properties, each key
  once. Numbers play no role in the modelled code.
\<close>

datatype js_exn =
    Error string
  | SyntaxError string
  | TypeError string
  | MissingPdfError string "json list"
  | NonError

text \<open>
  \<open>NonError\<close> is a thrown value that is no \<^verbatim>\<open>Error\<close> object. The messages of the errors that
  the engine itself raises are those of V8.
\<close>

fun instanceof_Error :: "js_exn \<Rightarrow> bool" where
  "instanceof_Error NonError = False"
| "instanceof_Error _ = True"

fun message :: "js_exn \<Rightarrow> string" where
  "message (Error m) = m"
| "message (SyntaxError m) = m"
| "message (TypeError m) = m"
| "message (MissingPdfError m _) = m"
| "message NonError = []"

fun instanceof_SyntaxError :: "js_exn \<Rightarrow> bool" where
  "instanceof_SyntaxError (SyntaxError _) = True"
| "instanceof_SyntaxError _ = False"

fun instanceof_MissingPdfError :: "js_exn \<Rightarrow> bool" where
  "instanceof_MissingPdfError (MissingPdfError _ _) = True"
| "instanceof_MissingPdfError _ = False"

definition truthy :: "string option \<Rightarrow> bool" where
  \<comment> \<open>an optional string in a condition: \<^verbatim>\<open>undefined\<close> and the empty string are falsy\<close>
  "truthy s = (case s of None \<Rightarrow> False | Some v \<Rightarrow> v \<noteq> [])"

fun join :: "string \<Rightarrow> string list \<Rightarrow> string" where
  "join sep [] = []"
| "join sep [x] = x"
| "join sep (x # y # ys) = x @ sep @ join sep (y # ys)"

definition trim :: "string \<Rightarrow> string" where
  "trim s = rev (dropWhile is_space (rev (dropWhile is_space s)))"

section \<open>formatCitations (components/ChatSection.tsx)\<close>










section \<open>getTeachingSections: the request (services/geminiService.ts)\<close>

record pdf_payload =
  base64 :: string
  mimeType :: string

record teaching_context =
  urls :: "string list option"
  pdfs :: "pdf_payload list option"
  pastedTexts :: "string list option"
  searchQuery :: "string option"
  focusTopic :: "string option"
  model :: string

datatype part = TextPart string | InlineData string string

datatype tool = UrlContext | GoogleSearch

datatype schema_type =
    StringType
  | ArrayType schema_type
  | ObjectType "(string \<times> schema_type) list" "string list"

definition schema :: schema_type where
  "schema = ArrayType (ObjectType
     [(''section_title'', StringType),
      (''qa_pairs'', ArrayType (ObjectType [(''question'', StringType), (''answer'', StringType)]
                                  [''question'', ''answer'']))]
     [''section_title'', ''qa_pairs''])"

record generation_request =
  req_model :: string
  req_parts :: "part list"
  req_systemInstruction :: string
  req_tools :: "tool list option"
  req_responseMimeType :: "string option"
  req_responseSchema :: "schema_type option"

text \<open>
  The sampling parameters and the safety settings of the request are constants of the
  source and are left out of \<^typ>\<open>generation_request\<close>.
\<close>

record builder =
  sourceDescriptions :: "string list"
  contentPromptParts :: "part list"
  tools :: "tool list"

definition add_tool :: "tool \<Rightarrow> tool list \<Rightarrow> tool list" where
  \<comment> \<open>\<^verbatim>\<open>if (!tools.some(tool => tool.hasOwnProperty(..))) tools.push(..)\<close>\<close>
  "add_tool t ts = (if \<not> (\<exists>x\<in>set ts. x = t) then ts @ [t] else ts)"

definition url_step :: "teaching_context \<Rightarrow> builder \<Rightarrow> builder" where
  \<open>url_step context b =
     (case urls context of
        None \<Rightarrow> b
      | Some us \<Rightarrow>
          if length us > 0 then
            (let urlList = join '', '' us in
             b\<lparr>sourceDescriptions := sourceDescriptions b @
                  [''the '' @ (if length us > 1 then ''webpages'' else ''webpage'') @
                   '' at the URL(s): '' @ urlList],
               tools := add_tool UrlContext (tools b)\<rparr>)
          else b)\<close>

definition pdf_step :: "teaching_context \<Rightarrow> builder \<Rightarrow> builder" where
  \<open>pdf_step context b =
     (case pdfs context of
        None \<Rightarrow> b
      | Some ps \<Rightarrow>
          if length ps > 0 then
            b\<lparr>sourceDescriptions := sourceDescriptions b @
                 [''the provided '' @ show_nat (length ps) @ '' PDF document(s)''],
              contentPromptParts := contentPromptParts b @
                 map (\<lambda>pdf. InlineData (base64 pdf) (mimeType pdf)) ps\<rparr>
          else b)\<close>

definition pasted_step :: "teaching_context \<Rightarrow> builder \<Rightarrow> builder" where
  \<open>pasted_step context b =
     (case pastedTexts context of
        None \<Rightarrow> b
      | Some ts \<Rightarrow>
          if length ts > 0 then
            b\<lparr>sourceDescriptions := sourceDescriptions b @
                 [''the provided '' @ show_nat (length ts) @ '' pasted text snippet(s)''],
              contentPromptParts := contentPromptParts b @
                 map (\<lambda>t. TextPart (''--- START OF PASTED CONTENT ---\<newline>'' @ t @
                                      ''\<newline>--- END OF PASTED CONTENT ---'')) ts\<rparr>
          else b)\<close>

definition search_step :: "teaching_context \<Rightarrow> builder \<Rightarrow> builder" where
  \<open>search_step context b =
     (case searchQuery context of
        None \<Rightarrow> b
      | Some q \<Rightarrow>
          if q \<noteq> [] then
            b\<lparr>sourceDescriptions := sourceDescriptions b @ [''a Google search for "'' @ q @ ''"''],
              tools := add_tool GoogleSearch (tools b)\<rparr>
          else b)\<close>

definition collect :: "teaching_context \<Rightarrow> builder" where
  "collect context =
     search_step context (pasted_step context (pdf_step context (url_step context
       \<lparr>sourceDescriptions = [], contentPromptParts = [], tools = []\<rparr>)))"

definition baseText :: "teaching_context \<Rightarrow> string list \<Rightarrow> string" where
  \<open>baseText context descs =
     ''Your analysis should be based on the following merged sources: '' @ join '' AND '' descs @
     ''. Please synthesize information from all these sources.'' @
     (case searchQuery context of
        None \<Rightarrow> []
      | Some q \<Rightarrow>
          if q \<noteq> [] then
            ''\<newline>\<newline>When performing the Google Search, focus on this query: "'' @ q @ ''".''
          else [])\<close>

definition role_sentence :: string where
  \<open>role_sentence = ''You are an expert radiology educator. Your task is to analyze the provided content and break it down into 5-7 sequential teaching sections.''\<close>

definition focus_before :: string where
  \<open>focus_before = '' The user has a specific interest in "''\<close>

definition focus_after :: string where
  \<open>focus_after = ''". Focus your analysis and section creation on this topic, extracting all relevant details from the content.''\<close>

definition format_rules :: string where
  \<open>format_rules = ''\<newline>For each section, provide a title and a series of question-and-answer pairs that capture the core concepts.\<newline>The 'answer' for each question should be detailed, comprehensive, and can include Markdown for formatting.\<newline>Important: Your output is for experienced Radiologists, so maintain a professional, technical tone.''\<close>

definition grounding_rule :: string where
  \<open>grounding_rule = ''\<newline>When creating the teaching sections, you MUST ground your entire response in the search results provided by the Google Search tool. The sources you use will be displayed to the user.''\<close>

definition missing_pdfs_rule :: string where
  \<open>missing_pdfs_rule = ''\<newline>If after searching you determine that the most relevant information is contained within PDF documents that you cannot access, you MUST NOT generate the teaching sections. Instead, your entire response MUST be a valid JSON object with a single key 'missing_pdfs', which is an array of strings, where each string is the URL of a PDF you need the user to upload. Example: {"missing_pdfs": ["https://example.com/study.pdf"]}. Only use this format if you are confident that the primary information is in an inaccessible PDF. Otherwise, the final output MUST be a valid JSON array of objects, strictly adhering to the provided schema. Do not add any text before or after the JSON. Do not wrap the JSON in markdown backticks.''\<close>

definition json_array_rule :: string where
  \<open>json_array_rule = ''\<newline>The final output MUST be a valid JSON array of objects, strictly adhering to the provided schema. Do not add any text before or after the JSON.''\<close>

definition focus_sentence :: "teaching_context \<Rightarrow> string" where
  \<comment> \<open>added when \<^verbatim>\<open>context.focusTopic && context.focusTopic.trim()\<close>\<close>
  "focus_sentence context =
     (case focusTopic context of
        None \<Rightarrow> []
      | Some t \<Rightarrow> if t \<noteq> [] \<and> trim t \<noteq> [] then focus_before @ t @ focus_after else [])"

definition systemInstruction :: "teaching_context \<Rightarrow> bool \<Rightarrow> string" where
  "systemInstruction context useGoogleSearch =
     role_sentence @ focus_sentence context @ format_rules @
     (if useGoogleSearch then grounding_rule @ missing_pdfs_rule else json_array_rule)"

definition uses_search :: "teaching_context \<Rightarrow> bool" where
  \<comment> \<open>\<^verbatim>\<open>tools.some(tool => tool.hasOwnProperty('googleSearch'))\<close>\<close>
  "uses_search context = (\<exists>t\<in>set (tools (collect context)). t = GoogleSearch)"

definition build_request :: "teaching_context \<Rightarrow> js_exn + generation_request" where
  "build_request context =
     (let b = collect context in
      if length (sourceDescriptions b) = 0 then
        Inl (Error ''No content provided to generate teaching sections.'')
      else
        (let useGoogleSearch = uses_search context in
         Inr \<lparr>req_model = model context,
              req_parts = TextPart (baseText context (sourceDescriptions b)) # contentPromptParts b,
              req_systemInstruction = systemInstruction context useGoogleSearch,
              req_tools = (if length (tools b) > 0 then Some (tools b) else None),
              req_responseMimeType = (if useGoogleSearch then None else Some ''application/json''),
              req_responseSchema = (if useGoogleSearch then None else Some schema)\<rparr>))"

section \<open>getTeachingSections: the reply (services/geminiService.ts)\<close>

record web_chunk =
  web_uri :: "string option"
  web_title :: "string option"

record GroundingChunk =
  web :: "web_chunk option"

record url_metadata =
  urlRetrievalStatus :: "string option"
  retrievedUrl :: "string option"

record GenerateContentResponse =
  response_text :: "string option"
  groundingChunks :: "GroundingChunk list option"
  urlContextMetadata :: "url_metadata list option"

text \<open>
  \<^verbatim>\<open>response.candidates?.[0]?.groundingMetadata?.groundingChunks\<close> and the first candidate's
  \<^verbatim>\<open>urlContextMetadata\<close> are the two optional lists of the record; the call to the backend
  either returns such a reply or throws.
\<close>

datatype api_failure = ApiError string | ApiSyntaxError string | ApiNonError

fun thrown :: "api_failure \<Rightarrow> js_exn" where
  "thrown (ApiError m) = Error m"
| "thrown (ApiSyntaxError m) = SyntaxError m"
| "thrown ApiNonError = NonError"

subsection \<open>Sources\<close>

definition web_source :: "web_chunk option \<Rightarrow> GroundingSource option" where
  \<comment> \<open>the filter \<^verbatim>\<open>!!web && !!web.uri && !!web.title\<close>\<close>
  "web_source w =
     (case w of
        None \<Rightarrow> None
      | Some x \<Rightarrow>
          (case (web_uri x, web_title x) of
             (Some u, Some t) \<Rightarrow> if u \<noteq> [] \<and> t \<noteq> [] then Some \<lparr>uri = u, title = t\<rparr> else None
           | _ \<Rightarrow> None))"

definition grounding_sources :: "GroundingChunk list option \<Rightarrow> GroundingSource list" where
  "grounding_sources gc =
     (case gc of None \<Rightarrow> [] | Some chunks \<Rightarrow> List.map_filter web_source (map web chunks))"

definition successfulUrlSources :: "url_metadata list \<Rightarrow> GroundingSource list" where
  "successfulUrlSources metas =
     List.map_filter
       (\<lambda>meta. case retrievedUrl meta of
                 None \<Rightarrow> None
               | Some u \<Rightarrow>
                   if urlRetrievalStatus meta = Some ''URL_RETRIEVAL_STATUS_SUCCESS'' \<and> u \<noteq> []
                   then Some \<lparr>uri = u, title = u\<rparr> else None)
       metas"

definition push_unseen :: "GroundingSource list \<Rightarrow> GroundingSource \<Rightarrow> GroundingSource list" where
  \<comment> \<open>\<^verbatim>\<open>if (!sources.some(s => s.uri === urlSource.uri)) sources.push(urlSource)\<close>\<close>
  "push_unseen sources urlSource =
     (if \<not> (\<exists>s\<in>set sources. uri s = uri urlSource) then sources @ [urlSource] else sources)"

definition collect_sources :: "GenerateContentResponse \<Rightarrow> GroundingSource list" where
  "collect_sources response =
     (let sources = grounding_sources (groundingChunks response) in
      case urlContextMetadata response of
        None \<Rightarrow> sources
      | Some metas \<Rightarrow> foldl push_unseen sources (successfulUrlSources metas))"

subsection \<open>Finding the JSON in a free-text reply\<close>

primrec split_first :: "string \<Rightarrow> string \<Rightarrow> (string \<times> string) option" where
  \<comment> \<open>what precedes and what follows the first occurrence of the pattern\<close>
  "split_first pat [] = (if pat = [] then Some ([], []) else None)"
| "split_first pat (c # cs) =
     (if startsWith (c # cs) pat then Some ([], drop (length pat) (c # cs))
      else map_option (\<lambda>(before, after). (c # before, after)) (split_first pat cs))"

definition fenced_block :: "string \<Rightarrow> string option" where
  \<comment> \<open>\<^verbatim>\<open>responseText.match(/```(json)?\s*([\s\S]*?)\s*```/)\<close>: \<open>None\<close> when the pattern does not
      match, else the second group. The match starts at the first fence; the optional tag and
      the white space after it are taken greedily, the group lazily, so the group runs up to
      the next fence, without the white space before that fence.\<close>
  "fenced_block s =
     (case split_first ''```'' s of
        None \<Rightarrow> None
      | Some (before, r) \<Rightarrow>
          (let c = dropWhile is_space (if startsWith r ''json'' then drop 4 r else r) in
           case split_first ''```'' c of
             None \<Rightarrow> None
           | Some (body, after) \<Rightarrow> Some (rev (dropWhile is_space (rev body)))))"

definition up_to_last :: "char \<Rightarrow> string \<Rightarrow> string" where
  \<comment> \<open>the prefix that ends with the last occurrence of the character\<close>
  "up_to_last ch s = rev (dropWhile (\<lambda>c. c \<noteq> ch) (rev s))"

fun raw_json :: "string \<Rightarrow> string option" where
  \<comment> \<open>\<^verbatim>\<open>responseText.match(/\{[\s\S]*\}|\[[\s\S]*\]/)\<close>: at the leftmost opening brace that has a
      closing brace after it (or bracket, with a closing bracket), the greedy star runs to the
      last such closing character\<close>
  "raw_json [] = None"
| "raw_json (c # cs) =
     (if c = CHR ''{'' \<and> CHR ''}'' \<in> set cs then Some (c # up_to_last (CHR ''}'') cs)
      else if c = CHR ''['' \<and> CHR '']'' \<in> set cs then Some (c # up_to_last (CHR '']'') cs)
      else raw_json cs)"

definition raw_fallback :: "string \<Rightarrow> js_exn + string" where
  "raw_fallback responseText =
     (case raw_json responseText of
        Some rawJsonMatch \<Rightarrow> Inr rawJsonMatch
      | None \<Rightarrow> Inl (Error ''The AI returned a non-JSON response when Google Search was used. Could not find a valid JSON object or array.''))"

definition extract_json :: "string \<Rightarrow> js_exn + string" where
  \<comment> \<open>\<^verbatim>\<open>if (jsonMatch && jsonMatch[2])\<close>: an empty second group is falsy\<close>
  "extract_json responseText =
     (case fenced_block responseText of
        Some group2 \<Rightarrow> if group2 \<noteq> [] then Inr group2 else raw_fallback responseText
      | None \<Rightarrow> raw_fallback responseText)"

subsection \<open>Parsing and classifying\<close>

definition parse_json :: "(string \<Rightarrow> string + json) \<Rightarrow> string \<Rightarrow> js_exn + json" where
  \<comment> \<open>\<^verbatim>\<open>JSON.parse\<close>, a parameter: it returns the value or the message of its \<^verbatim>\<open>SyntaxError\<close>\<close>
  "parse_json JSON_parse s = (case JSON_parse s of Inl m \<Rightarrow> Inl (SyntaxError m) | Inr v \<Rightarrow> Inr v)"

definition response_json :: "bool \<Rightarrow> (string \<Rightarrow> string + json) \<Rightarrow> string option \<Rightarrow> js_exn + json" where
  \<open>response_json useGoogleSearch JSON_parse responseText =
     (if useGoogleSearch then
        (case responseText of
           None \<Rightarrow> Inl (TypeError ''Cannot read properties of undefined (reading 'match')'')
         | Some t \<Rightarrow>
             (case extract_json t of
                Inl e \<Rightarrow> Inl e
              | Inr extracted \<Rightarrow> parse_json JSON_parse extracted))
      else parse_json JSON_parse (case responseText of None \<Rightarrow> ''undefined'' | Some t \<Rightarrow> t))\<close>

fun get_property :: "json \<Rightarrow> string \<Rightarrow> js_exn + json option" where
  \<comment> \<open>\<^verbatim>\<open>value.key\<close>: throws on \<^verbatim>\<open>null\<close>, is \<^verbatim>\<open>undefined\<close> on what is not an object\<close>
  "get_property JNull k = Inl (TypeError ''Cannot read properties of null'')"
| "get_property (JObject kvs) k = Inr (map_of kvs k)"
| "get_property _ k = Inr None"

fun js_truthy :: "json option \<Rightarrow> bool" where
  "js_truthy None = False"
| "js_truthy (Some JNull) = False"
| "js_truthy (Some (JBool b)) = b"
| "js_truthy (Some (JNumber n)) = (n \<noteq> 0)"
| "js_truthy (Some (JString s)) = (s \<noteq> [])"
| "js_truthy (Some (JArray xs)) = True"
| "js_truthy (Some (JObject kvs)) = True"

fun isArray :: "json option \<Rightarrow> bool" where
  "isArray (Some (JArray xs)) = True"
| "isArray _ = False"

fun elements :: "json option \<Rightarrow> json list" where
  "elements (Some (JArray xs)) = xs"
| "elements _ = []"

definition classify :: "json \<Rightarrow> GroundingSource list \<Rightarrow> js_exn + json list \<times> GroundingSource list" where
  "classify parsedResponse sources =
     (case get_property parsedResponse ''missing_pdfs'' of
        Inl e \<Rightarrow> Inl e
      | Inr missing_pdfs \<Rightarrow>
          if js_truthy missing_pdfs \<and> isArray missing_pdfs \<and> length (elements missing_pdfs) > 0 then
            Inl (MissingPdfError ''The AI has requested you upload PDFs for more context.''
                   (elements missing_pdfs))
          else if isArray (Some parsedResponse) then Inr (elements (Some parsedResponse), sources)
          else Inl (Error ''The AI returned teaching sections in an unexpected format.''))"

subsection \<open>The whole call\<close>

definition teaching_try ::
  "(generation_request \<Rightarrow> api_failure + GenerateContentResponse) \<Rightarrow> (string \<Rightarrow> string + json) \<Rightarrow>
   bool \<Rightarrow> generation_request \<Rightarrow> js_exn + json list \<times> GroundingSource list" where
  \<comment> \<open>the body of the \<^verbatim>\<open>try\<close> block\<close>
  "teaching_try generateContent JSON_parse useGoogleSearch req =
     (case generateContent req of
        Inl f \<Rightarrow> Inl (thrown f)
      | Inr response \<Rightarrow>
          (let sources = collect_sources response in
           case response_json useGoogleSearch JSON_parse (response_text response) of
             Inl e \<Rightarrow> Inl e
           | Inr parsedResponse \<Rightarrow> classify parsedResponse sources))"

definition teaching_catch :: "js_exn \<Rightarrow> js_exn" where
  \<comment> \<open>what the \<^verbatim>\<open>catch\<close> block throws for the caught error\<close>
  \<open>teaching_catch error =
     (if instanceof_MissingPdfError error then error
      else if instanceof_Error error \<and> str_includes (message error) ''SAFETY'' then
        Error ''The content could not be processed due to safety filters. Please ensure the URL/query links to appropriate content.''
      else if instanceof_SyntaxError error then
        Error ''Failed to parse the response from the AI as valid JSON. The AI's output may have been malformed.''
      else
        Error ''Failed to generate teaching sections. The AI model might be busy or there was an issue with the request.'')\<close>

definition getTeachingSections ::
  "string option \<Rightarrow> (generation_request \<Rightarrow> api_failure + GenerateContentResponse) \<Rightarrow>
   (string \<Rightarrow> string + json) \<Rightarrow> teaching_context \<Rightarrow> js_exn + json list \<times> GroundingSource list" where
  "getTeachingSections API_KEY generateContent JSON_parse context =
     (if \<not> truthy API_KEY then Inl (Error ''API_KEY is not configured.'')
      else
        (case build_request context of
           Inl e \<Rightarrow> Inl e
         | Inr req \<Rightarrow>
             (case teaching_try generateContent JSON_parse (uses_search context) req of
                Inl error \<Rightarrow> Inl (teaching_catch error)
              | Inr result \<Rightarrow> Inr result)))"

section \<open>getFollowUpResponse (services/geminiService.ts)\<close>

record followup_context =
  originalQuestion :: string
  originalAnswer :: string
  fullSectionContent :: string

record Content =
  role :: string
  parts :: "part list"

record chat_request =
  chat_model :: string
  chat_contents :: "Content list"
  chat_systemInstruction :: string
  chat_tools :: "tool list option"

record ChatResponse =
  chat_text :: string
  chat_sources :: "GroundingSource list"
  chat_relatedLinks :: "GroundingSource list"

definition followup_intro :: string where
  \<open>followup_intro = ''You are a helpful radiology AI teaching assistant. The user is asking a follow-up question about a specific topic from a lesson you are teaching.\<newline>  \<newline>  This is the immediate context for their question:\<newline>  - Original Question: "''\<close>

definition followup_answer_label :: string where
  \<open>followup_answer_label = ''"\<newline>  - Original Answer: "''\<close>

definition followup_section_label :: string where
  \<open>followup_section_label = ''"\<newline>  \<newline>  This is the broader context of the entire teaching section:\<newline>  "''\<close>

definition followup_task :: string where
  \<open>followup_task = ''"\<newline>  \<newline>  Your task is to provide a clear, concise, and helpful answer to their follow-up question. Maintain a patient and encouraging tone.''\<close>

definition search_rule :: string where
  \<open>search_rule = ''\<newline>You MUST use the Google Search tool to find the most up-to-date and relevant information to answer the user's question. Base your answer on the search results. When you use information from a search result, you MUST add a numeric citation in the format [1], [2], etc., directly after the statement. The citation numbers must correspond to the order of sources provided in the grounding metadata. For example: 'This is a statement from a source [1]. This is another statement from another source [2].'' @ [CHR 0x27]\<close>

definition context_only_rule :: string where
  \<open>context_only_rule = ''\<newline>Answer based ONLY on the provided context. If the answer to the user's question is not found within the provided context (Original Question, Original Answer, and broader context), you MUST respond with the exact phrase: "The uploaded contents don't have an answer for that question. Please try the 'web for answer' option." Do not add any other text or explanation.''\<close>

definition capped :: "nat \<Rightarrow> string \<Rightarrow> string" where
  \<comment> \<open>\<^verbatim>\<open>s.substring(0, n)\<close> followed by the dots when \<^verbatim>\<open>s.length > n\<close>\<close>
  "capped n s = take n s @ (if length s > n then ''...'' else [])"

definition followup_instruction :: "followup_context \<Rightarrow> bool \<Rightarrow> string" where
  "followup_instruction context useGoogleSearch =
     followup_intro @ originalQuestion context @ followup_answer_label @
     capped 500 (originalAnswer context) @ followup_section_label @
     capped 800 (fullSectionContent context) @ followup_task @
     (if useGoogleSearch then search_rule else context_only_rule)"

definition followup_request :: "followup_context \<Rightarrow> bool \<Rightarrow> Content list \<Rightarrow> string \<Rightarrow> chat_request" where
  "followup_request context useGoogleSearch history modelName =
     (let used = (if useGoogleSearch then [GoogleSearch] else []) in
      \<lparr>chat_model = modelName,
       chat_contents = history,
       chat_systemInstruction = followup_instruction context useGoogleSearch,
       chat_tools = (if length used > 0 then Some used else None)\<rparr>)"

subsection \<open>Links mentioned in the answer\<close>

definition to_lower :: "char \<Rightarrow> char" where
  "to_lower c =
     (case map_of (zip ''ABCDEFGHIJKLMNOPQRSTUVWXYZ'' ''abcdefghijklmnopqrstuvwxyz'') c of
        Some l \<Rightarrow> l
      | None \<Rightarrow> c)"

definition url_head :: "string \<Rightarrow> nat option" where
  \<comment> \<open>\<^verbatim>\<open>https?:\/\/\<close> at the head, letters in either case: how many characters it takes\<close>
  "url_head s =
     (if startsWith (map to_lower (take 8 s)) ''https://'' then Some 8
      else if startsWith (map to_lower (take 7 s)) ''http://'' then Some 7
      else None)"

definition word_boundary :: "char option \<Rightarrow> char \<Rightarrow> bool" where
  \<comment> \<open>\<^verbatim>\<open>\b\<close> between the previous character (none at the start) and the next one\<close>
  "word_boundary prev c = ((case prev of None \<Rightarrow> False | Some p \<Rightarrow> is_word p) \<noteq> is_word c)"

definition match_url :: "char option \<Rightarrow> string \<Rightarrow> (string \<times> string) option" where
  \<comment> \<open>\<^verbatim>\<open>\bhttps?:\/\/\S+\<close> anchored at the head: the match and what follows it\<close>
  "match_url prev s =
     (case s of
        [] \<Rightarrow> None
      | c # cs \<Rightarrow>
          if word_boundary prev c then
            (case url_head s of
               None \<Rightarrow> None
             | Some n \<Rightarrow>
                 (let body = takeWhile (\<lambda>x. \<not> is_space x) (drop n s) in
                  if body = [] then None
                  else Some (take n s @ body, dropWhile (\<lambda>x. \<not> is_space x) (drop n s))))
          else None)"

lemma url_head_positive: "url_head s = Some n \<Longrightarrow> 0 < n"
  by (auto simp: url_head_def split: if_splits)

lemma match_url_shorter: "match_url prev s = Some (m, r) \<Longrightarrow> length r < length s"
proof -
  assume a: "match_url prev s = Some (m, r)"
  then obtain n where n: "url_head s = Some n"
    and r: "r = dropWhile (\<lambda>x. \<not> is_space x) (drop n s)"
    and b: "takeWhile (\<lambda>x. \<not> is_space x) (drop n s) \<noteq> []"
    by (auto simp: match_url_def Let_def split: list.splits if_splits option.splits)
  from b have "drop n s \<noteq> []" by auto
  then have "n < length s" by simp
  moreover have "0 < n" using n by (rule url_head_positive)
  moreover have "length r \<le> length (drop n s)"
    unfolding r by (rule length_dropWhile_le)
  ultimately show ?thesis by simp
qed

function scan_urls :: "char option \<Rightarrow> string \<Rightarrow> string list" where
  \<comment> \<open>\<^verbatim>\<open>text.match(/\bhttps?:\/\/\S+/gi) || []\<close>: all matches, left to right, none overlapping\<close>
  "scan_urls prev s =
     (case s of
        [] \<Rightarrow> []
      | c # cs \<Rightarrow>
          (case match_url prev s of
             None \<Rightarrow> scan_urls (Some c) cs
           | Some (m, r) \<Rightarrow> m # scan_urls (Some (last m)) r))"
  by pat_completeness auto
termination
  by (relation "measure (\<lambda>(prev, s). length s)") (auto dest: match_url_shorter)

declare scan_urls.simps [simp del]

definition strip_punctuation :: "string \<Rightarrow> string" where
  \<comment> \<open>\<^verbatim>\<open>url.replace(/[.,;!?)\]>]+$/, '')\<close>\<close>
  "strip_punctuation url = rev (dropWhile (\<lambda>c. c \<in> set ''.,;!?)]>'') (rev url))"

definition cleanedUrls :: "(string \<Rightarrow> string option) \<Rightarrow> string list \<Rightarrow> string list" where
  \<comment> \<open>\<open>URL_href u\<close> stands for \<^verbatim>\<open>new URL(u)\<close> with \<^verbatim>\<open>hash = ''\<close> and then \<^verbatim>\<open>href\<close>, the platform's
      URL parser and serialiser: \<open>None\<close> when the constructor throws\<close>
  "cleanedUrls URL_href extractedUrls =
     List.map_filter (\<lambda>url. URL_href (strip_punctuation url)) extractedUrls"

definition set_add :: "'a list \<Rightarrow> 'a \<Rightarrow> 'a list" where
  \<comment> \<open>adding to a \<^verbatim>\<open>Set\<close>, which keeps insertion order\<close>
  "set_add seen x = (if x \<in> set seen then seen else seen @ [x])"

definition unique :: "'a list \<Rightarrow> 'a list" where
  \<comment> \<open>\<^verbatim>\<open>[...new Set(xs)]\<close>\<close>
  "unique xs = foldl set_add [] xs"

definition related_links :: "GroundingSource list \<Rightarrow> string list \<Rightarrow> GroundingSource list" where
  "related_links sources cleaned =
     (let sourceUris = set (map uri sources) in
      map (\<lambda>url. \<lparr>uri = url, title = url\<rparr>) (filter (\<lambda>url. url \<notin> sourceUris) (unique cleaned)))"

subsection \<open>The whole call\<close>

definition chat_try ::
  "(chat_request \<Rightarrow> api_failure + GenerateContentResponse) \<Rightarrow> (string \<Rightarrow> string option) \<Rightarrow>
   chat_request \<Rightarrow> js_exn + ChatResponse" where
  \<open>chat_try generateContent URL_href req =
     (case generateContent req of
        Inl f \<Rightarrow> Inl (thrown f)
      | Inr response \<Rightarrow>
          (let sources = grounding_sources (groundingChunks response) in
           case response_text response of
             None \<Rightarrow> Inl (TypeError ''Cannot read properties of undefined (reading 'match')'')
           | Some text \<Rightarrow>
               Inr \<lparr>chat_text = text,
                    chat_sources = sources,
                    chat_relatedLinks =
                      related_links sources (cleanedUrls URL_href (scan_urls None text))\<rparr>))\<close>

definition chat_catch :: "js_exn \<Rightarrow> js_exn + ChatResponse" where
  \<open>chat_catch error =
     (if instanceof_Error error \<and> str_includes (message error) ''SAFETY'' then
        Inr \<lparr>chat_text = ''I'm sorry, I cannot respond to that due to safety guidelines.'',
             chat_sources = [], chat_relatedLinks = []\<rparr>
      else Inl (Error ''Failed to get chat response. The AI model might be unavailable.''))\<close>

definition getFollowUpResponse ::
  "string option \<Rightarrow> (chat_request \<Rightarrow> api_failure + GenerateContentResponse) \<Rightarrow>
   (string \<Rightarrow> string option) \<Rightarrow> string \<Rightarrow> followup_context \<Rightarrow> bool \<Rightarrow> Content list \<Rightarrow> string \<Rightarrow>
   js_exn + ChatResponse" where
  "getFollowUpResponse API_KEY generateContent URL_href userMessage context useGoogleSearch history
     modelName =
     (if \<not> truthy API_KEY then Inl (Error ''API_KEY is not configured.'')
      else
        (case chat_try generateContent URL_href
                (followup_request context useGoogleSearch history modelName) of
           Inl error \<Rightarrow> chat_catch error
         | Inr response \<Rightarrow> Inr response))"

section \<open>Resubmission with supplemental content (App.tsx)\<close>

record pdf_file =
  file_name :: string
  file_type :: string
  file_base64 :: string

text \<open>
  A \<^typ>\<open>pdf_file\<close> is a browser \<^verbatim>\<open>File\<close>: its name, its MIME type, and the base64 text that
  \<^verbatim>\<open>fileToBase64\<close> resolves to.
\<close>

record supplemental =
  supp_file :: "pdf_file option"
  supp_text :: "string option"
  supp_name :: string

record learning_context =
  lc_urls :: "string list"
  pdfFiles :: "pdf_file list"
  lc_pastedTexts :: "string list option"
  lc_searchQuery :: string
  lc_focusTopic :: string
  lc_model :: string

record app_state =
  error_message :: string
  lastLearningContext :: "learning_context option"
  supplementalContent :: "(string \<times> supplemental) list"
  supplementalBulkPdfs :: "pdf_file list"
  pastingForUrl :: "string option"
  currentPastedText :: string

text \<open>
  \<open>supplementalContent\<close> is the \<^verbatim>\<open>Record<string, ...>\<close> of the component: its entries in the
  order of \<^verbatim>\<open>Object.values\<close>, each key once.
\<close>

definition handlePdfSubmission :: "app_state \<Rightarrow> app_state \<times> learning_context option" where
  \<comment> \<open>the new state, and the context handed to \<^verbatim>\<open>handleStartLearning\<close> when it is called\<close>
  "handlePdfSubmission st =
     (case lastLearningContext st of
        None \<Rightarrow> (st\<lparr>error_message := ''Cannot re-submit, original context was lost.''\<rparr>, None)
      | Some lastContext \<Rightarrow>
          (let hasIndividualContent = length (map fst (supplementalContent st)) > 0;
               hasBulkContent = length (supplementalBulkPdfs st) > 0
           in
           if \<not> hasIndividualContent \<and> \<not> hasBulkContent then
             (st\<lparr>error_message := ''Please provide content for at least one of the requested PDFs.''\<rparr>,
              None)
           else
             (let allSupplementalPdfs =
                    supplementalBulkPdfs st @
                    List.map_filter supp_file (map snd (supplementalContent st));
                  allPastedTexts =
                    filter (\<lambda>t. t \<noteq> [])
                      (List.map_filter supp_text (map snd (supplementalContent st)));
                  newContext =
                    lastContext\<lparr>pdfFiles := pdfFiles lastContext @ allSupplementalPdfs,
                         lc_pastedTexts := Some allPastedTexts\<rparr>
              in
              (st\<lparr>supplementalContent := [], supplementalBulkPdfs := [],
                  pastingForUrl := None, currentPastedText := []\<rparr>,
               Some newContext))))"

definition service_context :: "learning_context \<Rightarrow> teaching_context" where
  \<comment> \<open>the argument that \<^verbatim>\<open>handleStartLearning\<close> gives to \<^verbatim>\<open>getTeachingSections\<close>\<close>
  "service_context context =
     \<lparr>urls = Some (lc_urls context),
      pdfs = Some (map (\<lambda>f. \<lparr>base64 = file_base64 f, mimeType = file_type f\<rparr>) (pdfFiles context)),
      pastedTexts = lc_pastedTexts context,
      searchQuery = Some (lc_searchQuery context),
      focusTopic = Some (lc_focusTopic context),
      model = lc_model context\<rparr>"

section \<open>Stand-ins and example inputs\<close>

text \<open>
  The backend, \<^verbatim>\<open>JSON.parse\<close> and the platform's URL class are parameters of the modelled
  functions. The stand-ins below fix them for the examples: a backend that returns a given
  reply or throws a given failure, a parser that knows one text, and a URL serialiser
  that drops the fragment.
\<close>

definition replying :: "'r \<Rightarrow> 'q \<Rightarrow> api_failure + 'r" where
  "replying response req = Inr response"

definition failing :: "api_failure \<Rightarrow> 'q \<Rightarrow> api_failure + GenerateContentResponse" where
  "failing f req = Inl f"

definition JSON_parse_at :: "string \<Rightarrow> json \<Rightarrow> string \<Rightarrow> string + json" where
  "JSON_parse_at t v s = (if s = t then Inr v else Inl ''Unexpected token'')"

definition href_without_fragment :: "string \<Rightarrow> string option" where
  "href_without_fragment u = Some (takeWhile (\<lambda>c. c \<noteq> CHR ''#'') u)"

definition url_context :: teaching_context where
  "url_context =
     \<lparr>urls = Some [''https://x.org/a''], pdfs = None, pastedTexts = None,
      searchQuery = None, focusTopic = None, model = ''gemini-2.5-pro''\<rparr>"

definition search_context :: teaching_context where
  "search_context =
     \<lparr>urls = Some [''https://x.org/a''], pdfs = None, pastedTexts = None,
      searchQuery = Some ''foo'', focusTopic = None, model = ''gemini-2.5-pro''\<rparr>"

definition anchor :: followup_context where
  "anchor = \<lparr>originalQuestion = ''Q'', originalAnswer = ''A'', fullSectionContent = ''Q: Q A: A''\<rparr>"

definition lesson_text :: string where
  \<open>lesson_text = ''[{"section_title":"T","qa_pairs":[{"question":"Q","answer":"A"}]}]''\<close>

definition lesson_json :: json where
  "lesson_json =
     JArray [JObject [(''section_title'', JString ''T''),
       (''qa_pairs'', JArray [JObject [(''question'', JString ''Q''), (''answer'', JString ''A'')]])]]"

definition empty_qa_text :: string where
  \<open>empty_qa_text = ''[{"section_title":"T","qa_pairs":[]}]''\<close>

definition empty_qa_section :: json where
  "empty_qa_section = JObject [(''section_title'', JString ''T''), (''qa_pairs'', JArray [])]"

definition missing_text :: string where
  \<open>missing_text = ''{"missing_pdfs":["https://x.org/a.pdf"]}''\<close>

definition missing_json :: json where
  "missing_json = JObject [(''missing_pdfs'', JArray [JString ''https://x.org/a.pdf''])]"

definition text_reply :: "string \<Rightarrow> GenerateContentResponse" where
  "text_reply t = \<lparr>response_text = Some t, groundingChunks = None, urlContextMetadata = None\<rparr>"

definition chunk :: "string \<Rightarrow> string \<Rightarrow> GroundingChunk" where
  "chunk u t = \<lparr>web = Some \<lparr>web_uri = Some u, web_title = Some t\<rparr>\<rparr>"

definition merge_reply :: GenerateContentResponse where
  "merge_reply =
     \<lparr>response_text = Some lesson_text,
      groundingChunks = Some [chunk ''https://a.com'' ''A''],
      urlContextMetadata = Some
        [\<lparr>urlRetrievalStatus = Some ''URL_RETRIEVAL_STATUS_SUCCESS'',
          retrievedUrl = Some ''https://a.com''\<rparr>,
         \<lparr>urlRetrievalStatus = Some ''URL_RETRIEVAL_STATUS_ERROR'',
          retrievedUrl = Some ''https://c.com''\<rparr>,
         \<lparr>urlRetrievalStatus = Some ''URL_RETRIEVAL_STATUS_SUCCESS'',
          retrievedUrl = Some ''https://b.com''\<rparr>]\<rparr>"

definition repeated_reply :: GenerateContentResponse where
  "repeated_reply =
     \<lparr>response_text = Some lesson_text,
      groundingChunks = Some [chunk ''https://a.com'' ''A'', chunk ''https://a.com'' ''A, again''],
      urlContextMetadata = None\<rparr>"

definition partial_chunks :: "GroundingChunk list" where
  "partial_chunks =
     [\<lparr>web = None\<rparr>,
      \<lparr>web = Some \<lparr>web_uri = Some ''https://n.com'', web_title = None\<rparr>\<rparr>,
      \<lparr>web = Some \<lparr>web_uri = None, web_title = Some ''N''\<rparr>\<rparr>,
      \<lparr>web = Some \<lparr>web_uri = Some [], web_title = Some ''E''\<rparr>\<rparr>,
      chunk ''https://a.com'' ''A'']"

definition partial_reply :: "string \<Rightarrow> GenerateContentResponse" where
  "partial_reply t =
     \<lparr>response_text = Some t, groundingChunks = Some partial_chunks, urlContextMetadata = None\<rparr>"

definition chat_reply :: GenerateContentResponse where
  \<open>chat_reply =
     \<lparr>response_text = Some ''See [1] and https://b.com/x#frag.'',
      groundingChunks = Some [chunk ''https://a.com'' ''A''],
      urlContextMetadata = None\<rparr>\<close>

definition old_pdf :: pdf_file where
  "old_pdf = \<lparr>file_name = ''first.pdf'', file_type = ''application/pdf'', file_base64 = ''Zmlyc3Q=''\<rparr>"

definition bulk_pdf :: pdf_file where
  "bulk_pdf = \<lparr>file_name = ''bulk.pdf'', file_type = ''application/pdf'', file_base64 = ''YnVsaw==''\<rparr>"

definition own_pdf :: pdf_file where
  "own_pdf = \<lparr>file_name = ''own.pdf'', file_type = ''application/pdf'', file_base64 = ''b3du''\<rparr>"

definition retained_context :: learning_context where
  "retained_context =
     \<lparr>lc_urls = [''https://x.org/a''], pdfFiles = [old_pdf],
      lc_pastedTexts = Some [''text pasted in the first cycle''],
      lc_searchQuery = ''foo'', lc_focusTopic = [], lc_model = ''gemini-2.5-pro''\<rparr>"

definition second_cycle :: app_state where
  "second_cycle =
     \<lparr>error_message = ''The AI has requested you upload PDFs for more context.'',
      lastLearningContext = Some retained_context,
      supplementalContent =
        [(''https://x.org/b.pdf'',
            \<lparr>supp_file = None, supp_text = Some ''text pasted in the second cycle'',
             supp_name = ''Pasted content for https://x.org/b.pdf...''\<rparr>),
         (''https://x.org/c.pdf'',
            \<lparr>supp_file = Some own_pdf, supp_text = None, supp_name = ''own.pdf''\<rparr>)],
      supplementalBulkPdfs = [bulk_pdf],
      pastingForUrl = None,
      currentPastedText = []\<rparr>"




section \<open>The specification's wording, for comparison\<close>

definition spec_valid_section :: "json \<Rightarrow> bool" where
  \<comment> \<open>the specification's check on an element of the array: it has a title and a non-empty
      list of question-and-answer pairs\<close>
  "spec_valid_section v =
     (case v of
        JObject kvs \<Rightarrow>
          (case map_of kvs ''section_title'' of Some (JString t) \<Rightarrow> True | _ \<Rightarrow> False) \<and>
          (case map_of kvs ''qa_pairs'' of Some (JArray qs) \<Rightarrow> qs \<noteq> [] | _ \<Rightarrow> False)
      | _ \<Rightarrow> False)"



section \<open>Citation markers\<close>













section \<open>The request: when the escalation instruction is sent\<close>

lemmas request_eval =
  build_request_def collect_def url_step_def pdf_step_def pasted_step_def search_step_def
  add_tool_def uses_search_def Let_def truthy_def

lemma startsWith_append: "startsWith (p @ s) p"
  by (induction p) auto

lemma startsWith_set: "startsWith s p \<Longrightarrow> set p \<subseteq> set s"
  by (induction p arbitrary: s) (auto split: list.splits)

lemma str_includes_set: "str_includes s p \<Longrightarrow> set p \<subseteq> set s"
proof (induction s)
  case Nil
  then show ?case by simp
next
  case (Cons c cs)
  then show ?case
    using startsWith_set [of "c # cs" p] by auto
qed

lemma str_includes_here: "str_includes (p @ s) p"
  by (cases "p @ s") (auto simp: startsWith_append, metis startsWith_append)

lemma str_includes_later: "str_includes s p \<Longrightarrow> str_includes (a @ s) p"
  by (induction a) auto

lemma str_includes_middle: "str_includes (a @ p @ b) p"
  by (rule str_includes_later) (rule str_includes_here)

lemma tools_url_step: "set (tools (url_step context b)) \<subseteq> insert UrlContext (set (tools b))"
  by (auto simp: url_step_def add_tool_def Let_def split: option.splits)

lemma tools_collect:
  "GoogleSearch \<in> set (tools (collect context)) \<longleftrightarrow> truthy (searchQuery context)"
proof -
  let ?b = "pasted_step context (pdf_step context (url_step context
       \<lparr>sourceDescriptions = [], contentPromptParts = [], tools = []\<rparr>))"
  have "tools ?b = tools (url_step context \<lparr>sourceDescriptions = [], contentPromptParts = [], tools = []\<rparr>)"
    by (simp add: pasted_step_def pdf_step_def split: option.splits)
  then have "set (tools ?b) \<subseteq> {UrlContext}"
    using tools_url_step [where b = "\<lparr>sourceDescriptions = [], contentPromptParts = [], tools = []\<rparr>"]
    by simp
  then have n: "GoogleSearch \<notin> set (tools ?b)" by auto
  show ?thesis
    using n by (auto simp: collect_def search_step_def add_tool_def truthy_def split: option.splits)
qed

lemma uses_search_iff: "uses_search context \<longleftrightarrow> truthy (searchQuery context)"
  using tools_collect by (auto simp: uses_search_def)

lemma build_request_instruction:
  "build_request context = Inr req \<Longrightarrow>
     req_systemInstruction req = systemInstruction context (truthy (searchQuery context)) \<and>
     req_responseSchema req = (if truthy (searchQuery context) then None else Some schema) \<and>
     req_responseMimeType req = (if truthy (searchQuery context) then None else Some ''application/json'')"
  by (auto simp: build_request_def Let_def uses_search_iff split: if_splits)

lemma underscore_in_rule: "CHR ''_'' \<in> set missing_pdfs_rule"
  by (simp add: missing_pdfs_rule_def)

lemma no_underscore_fixed:
  "CHR ''_'' \<notin> set role_sentence" "CHR ''_'' \<notin> set format_rules" "CHR ''_'' \<notin> set json_array_rule"
  "CHR ''_'' \<notin> set focus_before" "CHR ''_'' \<notin> set focus_after"
  by (simp_all add: role_sentence_def format_rules_def json_array_rule_def focus_before_def
      focus_after_def)

lemma no_underscore_focus:
  "(case focusTopic context of None \<Rightarrow> True | Some t \<Rightarrow> CHR ''_'' \<notin> set t) \<Longrightarrow>
   CHR ''_'' \<notin> set (focus_sentence context)"
  by (auto simp: focus_sentence_def no_underscore_fixed split: option.splits)

lemma plain_instruction_lacks:
  assumes "case focusTopic context of None \<Rightarrow> True | Some t \<Rightarrow> CHR ''_'' \<notin> set t"
    and "CHR ''_'' \<in> set p"
  shows "\<not> str_includes (systemInstruction context False) p"
proof
  assume "str_includes (systemInstruction context False) p"
  then have "set p \<subseteq> set (systemInstruction context False)"
    by (rule str_includes_set)
  then have "CHR ''_'' \<in> set (systemInstruction context False)"
    using assms(2) by blast
  then show False
    using no_underscore_focus [OF assms(1)] by (simp add: systemInstruction_def no_underscore_fixed)
qed

text \<open>
  C1, as the code has it. The escalation instruction (\<open>missing_pdfs_rule\<close>) is part of the system
  instruction when web search is requested, that is, when the search query is non-empty; no
  output schema is sent then. When web search is not requested the output schema is sent and
  the system instruction is the role sentence, the optional focus sentence, the formatting
  rules and the JSON-array rule, and nothing else: it includes neither the escalation
  instruction nor the key \<^verbatim>\<open>missing_pdfs\<close> (for every focus topic without an underscore, so
  that the user's topic cannot itself spell the key).
\<close>

theorem escalation_instruction_with_search_only:
  assumes "build_request context = Inr req"
  shows "(truthy (searchQuery context) \<longrightarrow>
            str_includes (req_systemInstruction req) missing_pdfs_rule \<and>
            req_responseSchema req = None) \<and>
         (\<not> truthy (searchQuery context) \<longrightarrow>
            req_responseSchema req = Some schema \<and>
            req_systemInstruction req =
              role_sentence @ focus_sentence context @ format_rules @ json_array_rule \<and>
            ((case focusTopic context of None \<Rightarrow> True | Some t \<Rightarrow> CHR ''_'' \<notin> set t) \<longrightarrow>
               \<not> str_includes (req_systemInstruction req) ''missing_pdfs'' \<and>
               \<not> str_includes (req_systemInstruction req) missing_pdfs_rule))"
proof (intro conjI impI)
  note r = build_request_instruction [OF assms]
  {
    assume s: "truthy (searchQuery context)"
    have "systemInstruction context True =
            (role_sentence @ focus_sentence context @ format_rules @ grounding_rule) @
            missing_pdfs_rule @ []"
      by (simp add: systemInstruction_def)
    then have "str_includes (systemInstruction context True) missing_pdfs_rule"
      using str_includes_middle by metis
    then show "str_includes (req_systemInstruction req) missing_pdfs_rule"
      using r s by simp
    show "req_responseSchema req = None" using r s by simp
  }
  {
    assume s: "\<not> truthy (searchQuery context)"
    show "req_responseSchema req = Some schema" using r s by simp
    show "req_systemInstruction req =
              role_sentence @ focus_sentence context @ format_rules @ json_array_rule"
      using r s by (simp add: systemInstruction_def)
    assume f: "case focusTopic context of None \<Rightarrow> True | Some t \<Rightarrow> CHR ''_'' \<notin> set t"
    have "\<not> str_includes (systemInstruction context False) ''missing_pdfs''"
      using f by (rule plain_instruction_lacks) simp
    then show "\<not> str_includes (req_systemInstruction req) ''missing_pdfs''"
      using r s by simp
    have "\<not> str_includes (systemInstruction context False) missing_pdfs_rule"
      using f underscore_in_rule by (rule plain_instruction_lacks)
    then show "\<not> str_includes (req_systemInstruction req) missing_pdfs_rule"
      using r s by simp
  }
qed

lemma url_context_request:
  \<open>build_request url_context =
     Inr \<lparr>req_model = ''gemini-2.5-pro'',
          req_parts = [TextPart ''Your analysis should be based on the following merged sources: the webpage at the URL(s): https://x.org/a. Please synthesize information from all these sources.''],
          req_systemInstruction = role_sentence @ format_rules @ json_array_rule,
          req_tools = Some [UrlContext],
          req_responseMimeType = Some ''application/json'',
          req_responseSchema = Some schema\<rparr>\<close>
  by (simp add: request_eval url_context_def baseText_def systemInstruction_def focus_sentence_def)

theorem escalation_instruction_with_search_only_witness:
  "str_includes (systemInstruction search_context True) missing_pdfs_rule \<and>
   \<not> str_includes (role_sentence @ format_rules @ json_array_rule) missing_pdfs_rule"
proof -
  obtain req where req: "build_request search_context = Inr req"
    by (simp add: request_eval search_context_def)
  have i: "req_systemInstruction req = systemInstruction search_context True"
    using build_request_instruction [OF req] by (simp add: search_context_def truthy_def)
  have t: "truthy (searchQuery search_context)"
    by (simp add: search_context_def truthy_def)
  have a: "str_includes (systemInstruction search_context True) missing_pdfs_rule"
    using escalation_instruction_with_search_only [OF req] t i by simp
  have n: "\<not> truthy (searchQuery url_context)"
    by (simp add: url_context_def truthy_def)
  have f: "case focusTopic url_context of None \<Rightarrow> True | Some t \<Rightarrow> CHR ''_'' \<notin> set t"
    by (simp add: url_context_def)
  have b: "\<not> str_includes (role_sentence @ format_rules @ json_array_rule) missing_pdfs_rule"
    using escalation_instruction_with_search_only [OF url_context_request] n f by simp
  show ?thesis using a b by simp
qed

text \<open>
  The claim C1 as stated fails: for a request with one URL and no web search, the strict
  schema is used and the system instruction does not include the escalation instruction.
\<close>

theorem schema_mode_lacks_escalation_counterexample:
  \<open>build_request url_context =
     Inr \<lparr>req_model = ''gemini-2.5-pro'',
          req_parts = [TextPart ''Your analysis should be based on the following merged sources: the webpage at the URL(s): https://x.org/a. Please synthesize information from all these sources.''],
          req_systemInstruction = role_sentence @ format_rules @ json_array_rule,
          req_tools = Some [UrlContext],
          req_responseMimeType = Some ''application/json'',
          req_responseSchema = Some schema\<rparr> \<and>
   \<not> str_includes (role_sentence @ format_rules @ json_array_rule) missing_pdfs_rule \<and>
   \<not> str_includes (role_sentence @ format_rules @ json_array_rule) ''missing_pdfs''\<close>
proof -
  have f: "case focusTopic url_context of None \<Rightarrow> True | Some t \<Rightarrow> CHR ''_'' \<notin> set t"
    by (simp add: url_context_def)
  have i: "systemInstruction url_context False = role_sentence @ format_rules @ json_array_rule"
    by (simp add: systemInstruction_def focus_sentence_def url_context_def)
  have "\<not> str_includes (systemInstruction url_context False) missing_pdfs_rule"
    using f underscore_in_rule by (rule plain_instruction_lacks)
  moreover have "\<not> str_includes (systemInstruction url_context False) ''missing_pdfs''"
    using f by (rule plain_instruction_lacks) simp
  ultimately show ?thesis
    using url_context_request by (simp add: i)
qed

section \<open>The lesson reply: escalation and sections\<close>

lemma build_request_error:
  "build_request context = Inl e \<Longrightarrow> e = Error ''No content provided to generate teaching sections.''"
  by (auto simp: build_request_def Let_def split: if_splits)

lemma teaching_catch_missing:
  "teaching_catch e = MissingPdfError m us \<longleftrightarrow> e = MissingPdfError m us"
  by (cases e) (auto simp: teaching_catch_def)

lemma thrown_not_missing: "thrown f \<noteq> MissingPdfError m us"
  by (cases f) auto

lemma extract_json_error: "extract_json t = Inl e \<Longrightarrow> \<not> instanceof_MissingPdfError e"
  by (auto simp: extract_json_def raw_fallback_def split: option.splits if_splits)

lemma response_json_not_missing:
  "response_json b JSON_parse t \<noteq> Inl (MissingPdfError m us)"
  by (auto simp: response_json_def parse_json_def dest: extract_json_error
      split: option.splits sum.splits)

lemma classify_missing:
  "classify parsed srcs = Inl (MissingPdfError m us) \<longleftrightarrow>
     m = ''The AI has requested you upload PDFs for more context.'' \<and>
     (\<exists>kvs. parsed = JObject kvs \<and> map_of kvs ''missing_pdfs'' = Some (JArray us) \<and> us \<noteq> [])"
proof (cases parsed)
  case (JObject kvs)
  show ?thesis
  proof (cases "map_of kvs ''missing_pdfs''")
    case None
    with JObject show ?thesis by (simp add: classify_def)
  next
    case (Some v)
    with JObject show ?thesis by (cases v) (auto simp: classify_def)
  qed
qed (auto simp: classify_def)

lemma teaching_try_missing:
  "teaching_try generateContent JSON_parse b req = Inl (MissingPdfError m us) \<longleftrightarrow>
     (\<exists>response parsed. generateContent req = Inr response \<and>
        response_json b JSON_parse (response_text response) = Inr parsed \<and>
        classify parsed (collect_sources response) = Inl (MissingPdfError m us))"
  by (auto simp: teaching_try_def Let_def thrown_not_missing response_json_not_missing
      split: sum.splits)

text \<open>
  C2. \<^verbatim>\<open>getTeachingSections\<close> throws \<^verbatim>\<open>MissingPdfError\<close> with the list \<open>us\<close> if and only if the
  request was built, the backend replied, the reply parsed to a JSON object, and the
  \<^verbatim>\<open>missing_pdfs\<close> property of that object is the non-empty array \<open>us\<close>: the error carries
  the elements of the array, in their order. A reply of any other parsed shape never
  escalates.
\<close>

theorem missing_pdfs_escalation:
  "getTeachingSections API_KEY generateContent JSON_parse context = Inl (MissingPdfError m us) \<longleftrightarrow>
     truthy API_KEY \<and> m = ''The AI has requested you upload PDFs for more context.'' \<and>
     (\<exists>req response kvs.
        build_request context = Inr req \<and> generateContent req = Inr response \<and>
        response_json (uses_search context) JSON_parse (response_text response) = Inr (JObject kvs) \<and>
        map_of kvs ''missing_pdfs'' = Some (JArray us) \<and> us \<noteq> [])"
proof (cases "truthy API_KEY")
  case False
  then show ?thesis by (simp add: getTeachingSections_def)
next
  case True
  show ?thesis
  proof (cases "build_request context")
    case (Inl e)
    with True build_request_error [OF Inl] show ?thesis
      by (simp add: getTeachingSections_def)
  next
    case (Inr req)
    have "getTeachingSections API_KEY generateContent JSON_parse context = Inl (MissingPdfError m us) \<longleftrightarrow>
        teaching_try generateContent JSON_parse (uses_search context) req = Inl (MissingPdfError m us)"
      using True Inr by (auto simp: getTeachingSections_def teaching_catch_missing split: sum.splits)
    also have "\<dots> \<longleftrightarrow> (\<exists>response parsed. generateContent req = Inr response \<and>
        response_json (uses_search context) JSON_parse (response_text response) = Inr parsed \<and>
        classify parsed (collect_sources response) = Inl (MissingPdfError m us))"
      by (rule teaching_try_missing)
    finally show ?thesis
      using True Inr by (auto simp: classify_missing)
  qed
qed

lemmas reply_eval =
  getTeachingSections_def teaching_try_def response_json_def parse_json_def classify_def
  collect_sources_def grounding_sources_def successfulUrlSources_def push_unseen_def web_source_def
  replying_def JSON_parse_at_def text_reply_def chunk_def

lemmas extract_eval =
  extract_json_def fenced_block_def raw_fallback_def up_to_last_def is_space_def

theorem missing_pdfs_escalation_witness:
  "getTeachingSections (Some ''key'') (replying (text_reply missing_text))
     (JSON_parse_at missing_text missing_json) search_context =
   Inl (MissingPdfError ''The AI has requested you upload PDFs for more context.''
          [JString ''https://x.org/a.pdf''])"
  by (subst missing_pdfs_escalation)
    (simp add: request_eval search_context_def reply_eval extract_eval missing_text_def
      missing_json_def)

lemma classify_array: "classify (JArray xs) srcs = Inr (xs, srcs)"
  by (simp add: classify_def)

text \<open>
  C3, as the code has it. When the reply parses to a JSON array, \<^verbatim>\<open>getTeachingSections\<close> returns
  the elements of the array as the sections, unchanged and unchecked, with the merged
  sources: no element is validated.
\<close>

theorem array_returned_unvalidated:
  assumes "truthy API_KEY"
    and "build_request context = Inr req"
    and "generateContent req = Inr response"
    and "response_json (uses_search context) JSON_parse (response_text response) = Inr (JArray xs)"
  shows "getTeachingSections API_KEY generateContent JSON_parse context =
           Inr (xs, collect_sources response)"
  using assms by (simp add: getTeachingSections_def teaching_try_def classify_array)

theorem array_returned_unvalidated_witness:
  "getTeachingSections (Some ''key'') (replying (text_reply empty_qa_text))
     (JSON_parse_at empty_qa_text (JArray [empty_qa_section])) url_context =
   Inr ([empty_qa_section], [])"
proof -
  obtain req where req: "build_request url_context = Inr req"
    by (simp add: request_eval url_context_def)
  have s: "\<not> uses_search url_context"
    by (simp add: request_eval url_context_def)
  have "getTeachingSections (Some ''key'') (replying (text_reply empty_qa_text))
     (JSON_parse_at empty_qa_text (JArray [empty_qa_section])) url_context =
     Inr ([empty_qa_section], collect_sources (text_reply empty_qa_text))"
    by (rule array_returned_unvalidated [OF _ req])
      (simp_all add: truthy_def s response_json_def parse_json_def replying_def JSON_parse_at_def
        text_reply_def)
  then show ?thesis
    by (simp add: collect_sources_def grounding_sources_def text_reply_def)
qed

text \<open>
  The claim C3 as stated fails: a section whose list of question-and-answer pairs is empty is
  returned, not rejected.
\<close>

theorem empty_qa_list_counterexample:
  "getTeachingSections (Some ''key'') (replying (text_reply empty_qa_text))
     (JSON_parse_at empty_qa_text (JArray [empty_qa_section])) url_context =
   Inr ([empty_qa_section], []) \<and>
   \<not> spec_valid_section empty_qa_section"
  by (simp add: reply_eval request_eval url_context_def spec_valid_section_def empty_qa_section_def)

section \<open>Sources of a reply\<close>

lemma set_map_filter_iff: "y \<in> set (List.map_filter f xs) \<longleftrightarrow> (\<exists>x\<in>set xs. f x = Some y)"
  by (induction xs) (auto split: option.splits)

lemma web_source_Some:
  "web_source w = Some s \<longleftrightarrow>
     (\<exists>x. w = Some x \<and> web_uri x = Some (uri s) \<and> web_title x = Some (title s) \<and>
          uri s \<noteq> [] \<and> title s \<noteq> [])"
  by (cases s) (auto simp: web_source_def split: option.splits)

lemma grounding_sources_member:
  "s \<in> set (grounding_sources gc) \<longleftrightarrow>
     (\<exists>chunks c x. gc = Some chunks \<and> c \<in> set chunks \<and> web c = Some x \<and>
        web_uri x = Some (uri s) \<and> web_title x = Some (title s) \<and> uri s \<noteq> [] \<and> title s \<noteq> [])"
proof (cases gc)
  case None
  then show ?thesis by (simp add: grounding_sources_def)
next
  case (Some chunks)
  have "s \<in> set (List.map_filter web_source (map web chunks)) \<longleftrightarrow>
          (\<exists>c\<in>set chunks. web_source (web c) = Some s)"
    by (auto simp: set_map_filter_iff)
  then show ?thesis
    using Some by (auto simp: grounding_sources_def web_source_Some)
qed

lemma successfulUrlSources_member:
  "s \<in> set (successfulUrlSources metas) \<longleftrightarrow>
     (\<exists>meta\<in>set metas. urlRetrievalStatus meta = Some ''URL_RETRIEVAL_STATUS_SUCCESS'' \<and>
        retrievedUrl meta = Some (uri s) \<and> uri s \<noteq> [] \<and> title s = uri s)"
  by (cases s) (auto simp: successfulUrlSources_def set_map_filter_iff split: option.splits if_splits)

lemma foldl_push_unseen:
  "\<exists>new. foldl push_unseen g xs = g @ new \<and> distinct (map uri new) \<and> set new \<subseteq> set xs \<and>
         (\<forall>n\<in>set new. uri n \<notin> uri ` set g) \<and>
         (\<forall>x\<in>set xs. uri x \<in> uri ` set (g @ new))"
proof (induction xs arbitrary: g)
  case Nil
  show ?case by simp
next
  case (Cons x xs)
  show ?case
  proof (cases "\<exists>s\<in>set g. uri s = uri x")
    case True
    then have p: "push_unseen g x = g" by (simp add: push_unseen_def)
    from Cons.IH [of g] obtain new where
      n: "foldl push_unseen g xs = g @ new" "distinct (map uri new)" "set new \<subseteq> set xs"
         "\<forall>n\<in>set new. uri n \<notin> uri ` set g" "\<forall>x\<in>set xs. uri x \<in> uri ` set (g @ new)"
      by blast
    from True obtain s where "s \<in> set g" "uri s = uri x" by blast
    then have "uri x \<in> uri ` set (g @ new)" by (metis UnI1 imageI set_append)
    with n p show ?thesis
      by (intro exI [of _ new]) auto
  next
    case False
    then have p: "push_unseen g x = g @ [x]" by (simp add: push_unseen_def)
    from Cons.IH [of "g @ [x]"] obtain new where
      n: "foldl push_unseen (g @ [x]) xs = (g @ [x]) @ new" "distinct (map uri new)"
         "set new \<subseteq> set xs" "\<forall>n\<in>set new. uri n \<notin> uri ` set (g @ [x])"
         "\<forall>y\<in>set xs. uri y \<in> uri ` set ((g @ [x]) @ new)"
      by blast
    have a: "foldl push_unseen g (x # xs) = g @ (x # new)" using p n(1) by simp
    have b: "distinct (map uri (x # new))" using n(2,4) by auto
    have c: "set (x # new) \<subseteq> set (x # xs)" using n(3) by auto
    have d: "\<forall>n\<in>set (x # new). uri n \<notin> uri ` set g" using n(4) False by auto
    have e: "\<forall>y\<in>set (x # xs). uri y \<in> uri ` set (g @ (x # new))" using n(5) by auto
    from a b c d e show ?thesis by blast
  qed
qed

lemma collect_sources_split:
  "\<exists>new. collect_sources response = grounding_sources (groundingChunks response) @ new \<and>
     distinct (map uri new) \<and>
     (\<forall>n\<in>set new. uri n \<notin> uri ` set (grounding_sources (groundingChunks response)) \<and>
        title n = uri n \<and> uri n \<noteq> [] \<and>
        (\<exists>metas meta. urlContextMetadata response = Some metas \<and> meta \<in> set metas \<and>
           urlRetrievalStatus meta = Some ''URL_RETRIEVAL_STATUS_SUCCESS'' \<and>
           retrievedUrl meta = Some (uri n))) \<and>
     (\<forall>metas meta u. urlContextMetadata response = Some metas \<and> meta \<in> set metas \<and>
        urlRetrievalStatus meta = Some ''URL_RETRIEVAL_STATUS_SUCCESS'' \<and>
        retrievedUrl meta = Some u \<and> u \<noteq> [] \<longrightarrow> u \<in> uri ` set (collect_sources response))"
proof (cases "urlContextMetadata response")
  case None
  then show ?thesis by (simp add: collect_sources_def)
next
  case (Some metas)
  let ?g = "grounding_sources (groundingChunks response)"
  from foldl_push_unseen [of ?g "successfulUrlSources metas"] obtain new where
    n: "foldl push_unseen ?g (successfulUrlSources metas) = ?g @ new" "distinct (map uri new)"
       "set new \<subseteq> set (successfulUrlSources metas)" "\<forall>n\<in>set new. uri n \<notin> uri ` set ?g"
       "\<forall>x\<in>set (successfulUrlSources metas). uri x \<in> uri ` set (?g @ new)"
    by blast
  have c: "collect_sources response = ?g @ new"
    using Some n(1) by (simp add: collect_sources_def)
  have m: "\<forall>n\<in>set new. title n = uri n \<and> uri n \<noteq> [] \<and>
        (\<exists>meta. meta \<in> set metas \<and>
           urlRetrievalStatus meta = Some ''URL_RETRIEVAL_STATUS_SUCCESS'' \<and>
           retrievedUrl meta = Some (uri n))"
    using n(3) by (auto simp: successfulUrlSources_member subset_iff)
  have s: "\<forall>meta u. meta \<in> set metas \<and>
        urlRetrievalStatus meta = Some ''URL_RETRIEVAL_STATUS_SUCCESS'' \<and>
        retrievedUrl meta = Some u \<and> u \<noteq> [] \<longrightarrow> u \<in> uri ` set (?g @ new)"
  proof (intro allI impI)
    fix meta u
    assume a: "meta \<in> set metas \<and>
        urlRetrievalStatus meta = Some ''URL_RETRIEVAL_STATUS_SUCCESS'' \<and>
        retrievedUrl meta = Some u \<and> u \<noteq> []"
    then have "\<lparr>uri = u, title = u\<rparr> \<in> set (successfulUrlSources metas)"
      by (subst successfulUrlSources_member) auto
    with n(5) have "uri \<lparr>uri = u, title = u\<rparr> \<in> uri ` set (?g @ new)" by blast
    then show "u \<in> uri ` set (?g @ new)" by simp
  qed
  show ?thesis
    using c n(2,4) m s Some by (intro exI [of _ new]) simp
qed

lemma collect_sources_distinct:
  assumes "distinct (map uri (grounding_sources (groundingChunks response)))"
  shows "distinct (map uri (collect_sources response))"
proof -
  from collect_sources_split [of response] obtain new where
    n: "collect_sources response = grounding_sources (groundingChunks response) @ new"
       "distinct (map uri new)"
       "\<forall>n\<in>set new. uri n \<notin> uri ` set (grounding_sources (groundingChunks response))"
    by blast
  have "set (map uri (grounding_sources (groundingChunks response))) \<inter> set (map uri new) = {}"
  proof -
    have "\<And>a b. a \<in> set (grounding_sources (groundingChunks response)) \<Longrightarrow> b \<in> set new \<Longrightarrow>
            uri a \<noteq> uri b"
      using n(3) by (metis imageI)
    then show ?thesis by auto
  qed
  then show ?thesis using assms n(2) by (simp add: n(1))
qed

lemma collect_sources_nonempty:
  "s \<in> set (collect_sources response) \<Longrightarrow> uri s \<noteq> [] \<and> title s \<noteq> []"
proof -
  assume a: "s \<in> set (collect_sources response)"
  from collect_sources_split [of response] obtain new where
    n: "collect_sources response = grounding_sources (groundingChunks response) @ new"
       "\<forall>n\<in>set new. title n = uri n \<and> uri n \<noteq> []"
    by blast
  from a n(1) consider "s \<in> set (grounding_sources (groundingChunks response))" | "s \<in> set new"
    by auto
  then show ?thesis
  proof cases
    case 1
    then show ?thesis by (auto simp: grounding_sources_member)
  next
    case 2
    with n(2) show ?thesis by auto
  qed
qed

lemma classify_sources:
  "classify parsed srcs = Inr (sections, srcs') \<Longrightarrow> srcs' = srcs"
  by (auto simp: classify_def split: sum.splits if_splits)

lemma getTeachingSections_result:
  assumes "getTeachingSections API_KEY generateContent JSON_parse context = Inr (sections, srcs)"
  shows "\<exists>req response. build_request context = Inr req \<and> generateContent req = Inr response \<and>
           srcs = collect_sources response"
  using assms
  by (auto simp: getTeachingSections_def teaching_try_def Let_def dest: classify_sources
      split: if_splits sum.splits)

lemma getFollowUpResponse_result:
  assumes "getFollowUpResponse API_KEY generateContent URL_href userMessage context useGoogleSearch
             history modelName = Inr r"
  shows "chat_sources r = [] \<or>
         (\<exists>response. generateContent (followup_request context useGoogleSearch history modelName) =
              Inr response \<and>
            chat_sources r = grounding_sources (groundingChunks response))"
  using assms
  by (auto simp: getFollowUpResponse_def chat_try_def chat_catch_def Let_def
      split: if_splits sum.splits option.splits)

text \<open>
  C5, as the code has it. The sources that \<^verbatim>\<open>getTeachingSections\<close> returns are the entries of the
  grounding channel, all of them and in their order, followed by new entries. The new entries
  have pairwise different uris, none of which occurs in the grounding channel; each comes
  from a retrieval record with the success status and has that record's URL as uri and as
  title. Every non-empty URL of a success record occurs among the returned uris. So a
  success record whose uri is already present adds nothing, the grounding channel's title
  stays, and a record with another status adds nothing. The returned list has no repeated
  uri whenever the grounding channel has none.
\<close>

theorem url_sources_merge:
  assumes "getTeachingSections API_KEY generateContent JSON_parse context = Inr (sections, srcs)"
  shows "\<exists>req response new.
     build_request context = Inr req \<and> generateContent req = Inr response \<and>
     srcs = grounding_sources (groundingChunks response) @ new \<and>
     distinct (map uri new) \<and>
     (\<forall>n\<in>set new. uri n \<notin> uri ` set (grounding_sources (groundingChunks response)) \<and>
        title n = uri n \<and> uri n \<noteq> [] \<and>
        (\<exists>metas meta. urlContextMetadata response = Some metas \<and> meta \<in> set metas \<and>
           urlRetrievalStatus meta = Some ''URL_RETRIEVAL_STATUS_SUCCESS'' \<and>
           retrievedUrl meta = Some (uri n))) \<and>
     (\<forall>metas meta u. urlContextMetadata response = Some metas \<and> meta \<in> set metas \<and>
        urlRetrievalStatus meta = Some ''URL_RETRIEVAL_STATUS_SUCCESS'' \<and>
        retrievedUrl meta = Some u \<and> u \<noteq> [] \<longrightarrow> u \<in> uri ` set srcs) \<and>
     (distinct (map uri (grounding_sources (groundingChunks response))) \<longrightarrow> distinct (map uri srcs))"
proof -
  from getTeachingSections_result [OF assms] obtain req response where
    r: "build_request context = Inr req" "generateContent req = Inr response"
       "srcs = collect_sources response"
    by blast
  from collect_sources_split [of response] obtain new where
    n: "collect_sources response = grounding_sources (groundingChunks response) @ new \<and>
     distinct (map uri new) \<and>
     (\<forall>n\<in>set new. uri n \<notin> uri ` set (grounding_sources (groundingChunks response)) \<and>
        title n = uri n \<and> uri n \<noteq> [] \<and>
        (\<exists>metas meta. urlContextMetadata response = Some metas \<and> meta \<in> set metas \<and>
           urlRetrievalStatus meta = Some ''URL_RETRIEVAL_STATUS_SUCCESS'' \<and>
           retrievedUrl meta = Some (uri n))) \<and>
     (\<forall>metas meta u. urlContextMetadata response = Some metas \<and> meta \<in> set metas \<and>
        urlRetrievalStatus meta = Some ''URL_RETRIEVAL_STATUS_SUCCESS'' \<and>
        retrievedUrl meta = Some u \<and> u \<noteq> [] \<longrightarrow> u \<in> uri ` set (collect_sources response))"
    by blast
  have d: "distinct (map uri (grounding_sources (groundingChunks response))) \<longrightarrow>
           distinct (map uri (collect_sources response))"
    using collect_sources_distinct by blast
  show ?thesis
    using r(1,2) n d unfolding r(3) by (intro exI [of _ req] exI [of _ response] exI [of _ new]) blast
qed

lemma merge_reply_result:
  "getTeachingSections (Some ''key'') (replying merge_reply) (JSON_parse_at lesson_text lesson_json)
     url_context =
   Inr (elements (Some lesson_json),
        [\<lparr>uri = ''https://a.com'', title = ''A''\<rparr>, \<lparr>uri = ''https://b.com'', title = ''https://b.com''\<rparr>])"
  by (simp add: reply_eval request_eval url_context_def merge_reply_def lesson_json_def)

theorem url_sources_merge_witness:
  "\<exists>req response new.
     build_request url_context = Inr req \<and> replying merge_reply req = Inr response \<and>
     [\<lparr>uri = ''https://a.com'', title = ''A''\<rparr>, \<lparr>uri = ''https://b.com'', title = ''https://b.com''\<rparr>] =
       grounding_sources (groundingChunks response) @ new \<and>
     distinct (map uri new) \<and>
     (\<forall>n\<in>set new. uri n \<notin> uri ` set (grounding_sources (groundingChunks response)) \<and>
        title n = uri n \<and> uri n \<noteq> [] \<and>
        (\<exists>metas meta. urlContextMetadata response = Some metas \<and> meta \<in> set metas \<and>
           urlRetrievalStatus meta = Some ''URL_RETRIEVAL_STATUS_SUCCESS'' \<and>
           retrievedUrl meta = Some (uri n))) \<and>
     (\<forall>metas meta u. urlContextMetadata response = Some metas \<and> meta \<in> set metas \<and>
        urlRetrievalStatus meta = Some ''URL_RETRIEVAL_STATUS_SUCCESS'' \<and>
        retrievedUrl meta = Some u \<and> u \<noteq> [] \<longrightarrow>
        u \<in> uri ` set [\<lparr>uri = ''https://a.com'', title = ''A''\<rparr>,
                        \<lparr>uri = ''https://b.com'', title = ''https://b.com''\<rparr>]) \<and>
     (distinct (map uri (grounding_sources (groundingChunks response))) \<longrightarrow>
      distinct (map uri [\<lparr>uri = ''https://a.com'', title = ''A''\<rparr>,
                         \<lparr>uri = ''https://b.com'', title = ''https://b.com''\<rparr>]))"
  by (rule url_sources_merge [OF merge_reply_result])

text \<open>
  The claim C5 as stated fails: the entries of the grounding channel are not deduplicated
  among themselves, so two chunks with one uri give a source list that repeats it.
\<close>

theorem repeated_grounding_uri_counterexample:
  "getTeachingSections (Some ''key'') (replying repeated_reply) (JSON_parse_at lesson_text lesson_json)
     url_context =
   Inr (elements (Some lesson_json),
        [\<lparr>uri = ''https://a.com'', title = ''A''\<rparr>, \<lparr>uri = ''https://a.com'', title = ''A, again''\<rparr>]) \<and>
   \<not> distinct (map uri [\<lparr>uri = ''https://a.com'', title = ''A''\<rparr>,
                          \<lparr>uri = ''https://a.com'', title = ''A, again''\<rparr>])"
  by (simp add: reply_eval request_eval url_context_def repeated_reply_def lesson_json_def)

text \<open>
  C10. Every source returned by the lesson path and by the chat path has a non-empty uri and
  a non-empty title. The lesson path returns all sources of the grounding channel, the chat
  path returns exactly those (or none, after a safety block). A source of the grounding
  channel is a chunk's web entry with its own uri and title, both present and non-empty: a
  chunk without a web entry, a uri or a title gives no source and no error, and no title is
  made up from the uri.
\<close>

theorem sources_have_uri_and_title:
  "(getTeachingSections API_KEY generateContent JSON_parse context = Inr (sections, srcs) \<longrightarrow>
      (\<exists>req response. build_request context = Inr req \<and> generateContent req = Inr response \<and>
         set (grounding_sources (groundingChunks response)) \<subseteq> set srcs) \<and>
      (\<forall>s\<in>set srcs. uri s \<noteq> [] \<and> title s \<noteq> [])) \<and>
   (getFollowUpResponse API_KEY chatContent URL_href userMessage fcontext useGoogleSearch history
      modelName = Inr r \<longrightarrow>
      (chat_sources r = [] \<or>
       (\<exists>response. chatContent (followup_request fcontext useGoogleSearch history modelName) =
            Inr response \<and> chat_sources r = grounding_sources (groundingChunks response))) \<and>
      (\<forall>s\<in>set (chat_sources r). uri s \<noteq> [] \<and> title s \<noteq> [])) \<and>
   (s \<in> set (grounding_sources gc) \<longleftrightarrow>
      (\<exists>chunks c x. gc = Some chunks \<and> c \<in> set chunks \<and> web c = Some x \<and>
         web_uri x = Some (uri s) \<and> web_title x = Some (title s) \<and> uri s \<noteq> [] \<and> title s \<noteq> []))"
proof (intro conjI impI)
  assume a: "getTeachingSections API_KEY generateContent JSON_parse context = Inr (sections, srcs)"
  from getTeachingSections_result [OF a] obtain req response where
    r: "build_request context = Inr req" "generateContent req = Inr response"
       "srcs = collect_sources response"
    by blast
  from collect_sources_split [of response] obtain new where
    "collect_sources response = grounding_sources (groundingChunks response) @ new"
    by blast
  then have "set (grounding_sources (groundingChunks response)) \<subseteq> set srcs"
    using r(3) by simp
  with r(1,2) show "\<exists>req response. build_request context = Inr req \<and>
        generateContent req = Inr response \<and>
        set (grounding_sources (groundingChunks response)) \<subseteq> set srcs"
    by blast
  show "\<forall>s\<in>set srcs. uri s \<noteq> [] \<and> title s \<noteq> []"
    using r(3) collect_sources_nonempty by blast
next
  assume a: "getFollowUpResponse API_KEY chatContent URL_href userMessage fcontext useGoogleSearch
      history modelName = Inr r"
  from getFollowUpResponse_result [OF a]
  show c: "chat_sources r = [] \<or>
       (\<exists>response. chatContent (followup_request fcontext useGoogleSearch history modelName) =
            Inr response \<and> chat_sources r = grounding_sources (groundingChunks response))" .
  then show "\<forall>s\<in>set (chat_sources r). uri s \<noteq> [] \<and> title s \<noteq> []"
    by (auto simp: grounding_sources_member)
next
  show "s \<in> set (grounding_sources gc) \<longleftrightarrow>
      (\<exists>chunks c x. gc = Some chunks \<and> c \<in> set chunks \<and> web c = Some x \<and>
         web_uri x = Some (uri s) \<and> web_title x = Some (title s) \<and> uri s \<noteq> [] \<and> title s \<noteq> [])"
    by (rule grounding_sources_member)
qed

lemma partial_reply_lesson:
  "getTeachingSections (Some ''key'') (replying (partial_reply lesson_text))
     (JSON_parse_at lesson_text lesson_json) url_context =
   Inr (elements (Some lesson_json), [\<lparr>uri = ''https://a.com'', title = ''A''\<rparr>])"
  by (simp add: reply_eval request_eval url_context_def partial_reply_def partial_chunks_def
      lesson_json_def)

lemmas scan_eval =
  scan_urls.simps match_url_def word_boundary_def is_word_def url_head_def to_lower_def
  is_space_def strip_punctuation_def cleanedUrls_def unique_def set_add_def related_links_def
  href_without_fragment_def

lemma partial_reply_chat:
  "getFollowUpResponse (Some ''key'') (replying (partial_reply ''See [1].'')) href_without_fragment
     ''why?'' anchor True [] ''gemini-2.5-pro'' =
   Inr \<lparr>chat_text = ''See [1].'', chat_sources = [\<lparr>uri = ''https://a.com'', title = ''A''\<rparr>],
        chat_relatedLinks = []\<rparr>"
  by (simp add: getFollowUpResponse_def chat_try_def Let_def truthy_def replying_def
      partial_reply_def partial_chunks_def grounding_sources_def web_source_def chunk_def scan_eval)

theorem sources_have_uri_and_title_witness:
  "getTeachingSections (Some ''key'') (replying (partial_reply lesson_text))
     (JSON_parse_at lesson_text lesson_json) url_context =
   Inr (elements (Some lesson_json), [\<lparr>uri = ''https://a.com'', title = ''A''\<rparr>]) \<and>
   getFollowUpResponse (Some ''key'') (replying (partial_reply ''See [1].'')) href_without_fragment
     ''why?'' anchor True [] ''gemini-2.5-pro'' =
   Inr \<lparr>chat_text = ''See [1].'', chat_sources = [\<lparr>uri = ''https://a.com'', title = ''A''\<rparr>],
        chat_relatedLinks = []\<rparr> \<and>
   uri \<lparr>uri = ''https://a.com'', title = ''A''\<rparr> \<noteq> [] \<and>
   title \<lparr>uri = ''https://a.com'', title = ''A''\<rparr> \<noteq> []"
proof -
  note lesson = sources_have_uri_and_title [THEN conjunct1, THEN mp, OF partial_reply_lesson]
  from lesson have "\<forall>s\<in>set [\<lparr>uri = ''https://a.com'', title = ''A''\<rparr>]. uri s \<noteq> [] \<and> title s \<noteq> []"
    by (rule conjunct2)
  then show ?thesis
    using partial_reply_lesson partial_reply_chat by simp
qed

section \<open>The chat turn: failures of the backend\<close>

text \<open>
  C8. When the backend call of a follow-up turn fails, \<^verbatim>\<open>getFollowUpResponse\<close> returns the
  fixed apology with empty source and related-link lists if the thrown value is an error
  whose message contains \<^verbatim>\<open>SAFETY\<close>, and otherwise throws the fixed chat failure.
\<close>

theorem chat_safety_block:
  assumes "truthy API_KEY"
    and "generateContent (followup_request context useGoogleSearch history modelName) = Inl f"
  shows \<open>getFollowUpResponse API_KEY generateContent URL_href userMessage context useGoogleSearch
           history modelName =
         (if instanceof_Error (thrown f) \<and> str_includes (message (thrown f)) ''SAFETY''
          then Inr \<lparr>chat_text = ''I'm sorry, I cannot respond to that due to safety guidelines.'',
                    chat_sources = [], chat_relatedLinks = []\<rparr>
          else Inl (Error ''Failed to get chat response. The AI model might be unavailable.''))\<close>
  using assms by (simp add: getFollowUpResponse_def chat_try_def chat_catch_def)

theorem chat_safety_block_witness:
  \<open>getFollowUpResponse (Some ''key'') (failing (ApiError ''blocked: SAFETY'')) href_without_fragment
      ''why?'' anchor False [] ''gemini-2.5-pro'' =
    Inr \<lparr>chat_text = ''I'm sorry, I cannot respond to that due to safety guidelines.'',
         chat_sources = [], chat_relatedLinks = []\<rparr> \<and>
   getFollowUpResponse (Some ''key'') (failing (ApiError ''quota exceeded'')) href_without_fragment
      ''why?'' anchor False [] ''gemini-2.5-pro'' =
    Inl (Error ''Failed to get chat response. The AI model might be unavailable.'')\<close>
proof -
  have k: "truthy (Some ''key'')" by (simp add: truthy_def)
  show ?thesis
    by (simp add: failing_def
        chat_safety_block [OF k, where f = "ApiError ''blocked: SAFETY''"]
        chat_safety_block [OF k, where f = "ApiError ''quota exceeded''"])
qed

section \<open>Related links of a chat reply\<close>













lemma startsWith_length: "startsWith s p \<Longrightarrow> length p \<le> length s"
  by (induction p arbitrary: s) (auto split: list.splits)











text \<open>The specification's example: the fragment and the final dot are gone, the marker stays.\<close>

lemma scan_example:
  \<open>scan_urls None ''See [1] and https://b.com/x#frag.'' = [''https://b.com/x#frag.'']\<close>
  by (simp add: scan_eval)

lemma chat_reply_result:
  \<open>getFollowUpResponse (Some ''key'') (replying chat_reply) href_without_fragment ''why?'' anchor True
      [] ''gemini-2.5-pro'' =
    Inr \<lparr>chat_text = ''See [1] and https://b.com/x#frag.'',
         chat_sources = [\<lparr>uri = ''https://a.com'', title = ''A''\<rparr>],
         chat_relatedLinks = [\<lparr>uri = ''https://b.com/x'', title = ''https://b.com/x''\<rparr>]\<rparr>\<close>
  by (simp add: getFollowUpResponse_def chat_try_def Let_def truthy_def replying_def chat_reply_def
      grounding_sources_def web_source_def chunk_def scan_example)
    (simp add: scan_eval)

section \<open>Resubmission: what the new context holds\<close>

text \<open>
  With a retained context and at least one attachment, the context handed to
  \<^verbatim>\<open>handleStartLearning\<close> has the retained files followed by the bulk files and then the
  per-URI files; its pasted texts are the non-empty per-URI texts alone.
\<close>

lemma handlePdfSubmission_context:
  assumes "lastLearningContext st = Some lastContext"
    and "supplementalContent st \<noteq> [] \<or> supplementalBulkPdfs st \<noteq> []"
  shows "snd (handlePdfSubmission st) =
           Some (lastContext
             \<lparr>pdfFiles := pdfFiles lastContext @ supplementalBulkPdfs st @
                  List.map_filter supp_file (map snd (supplementalContent st)),
              lc_pastedTexts := Some (filter (\<lambda>t. t \<noteq> [])
                  (List.map_filter supp_text (map snd (supplementalContent st))))\<rparr>)"
  using assms by (auto simp: handlePdfSubmission_def Let_def)

text \<open>
  C7, on an input where it fails. The retained context holds a pasted text from an earlier
  resubmission; the user adds a bulk file, a per-URI file and a per-URI text. The files of
  the new context are the retained file, the bulk file, the per-URI file, in this order, but
  its pasted texts are the new text only: the retained text is gone.
\<close>

theorem resubmission_drops_retained_texts:
  "snd (handlePdfSubmission second_cycle) =
     Some \<lparr>lc_urls = [''https://x.org/a''], pdfFiles = [old_pdf, bulk_pdf, own_pdf],
           lc_pastedTexts = Some [''text pasted in the second cycle''],
           lc_searchQuery = ''foo'', lc_focusTopic = [], lc_model = ''gemini-2.5-pro''\<rparr> \<and>
   lc_pastedTexts retained_context = Some [''text pasted in the first cycle'']"
  by (simp add: handlePdfSubmission_def Let_def second_cycle_def retained_context_def)

text \<open>The request of the next pass is compiled from the new text alone.\<close>

lemma resubmission_service_context:
  "map_option (pastedTexts \<circ> service_context) (snd (handlePdfSubmission second_cycle)) =
     Some (Some [''text pasted in the second cycle''])"
  by (simp add: handlePdfSubmission_def Let_def second_cycle_def service_context_def
      retained_context_def)

section \<open>The lesson reply: finding the JSON in free text\<close>

















end
